theory Spec2Isabelle
  imports Complex_Main
begin

section \<open>CameraWidget: face tracking and PTZ steering\<close>

text \<open>
  A shallow embedding of \<^verbatim>\<open>src/views/widgets/camera_widget.py\<close>: the tracking
  attributes of \<^verbatim>\<open>CameraWidget\<close>, its setters, \<^verbatim>\<open>draw_on_frame\<close> and
  \<^verbatim>\<open>track_face\<close>.

  Conventions of the model:
  \<^item> the attributes of the widget are a record, and every method takes the record and
    returns the updated one;
  \<^item> the calls made on the PTZ controller are returned as a list, in the order made;
  \<^item> a raised Python exception is the \<open>Inl\<close> side of the outcome, returned together
    with the attributes as they were when it was raised;
  \<^item> the dlib correlation tracker is opaque: its three operations are parameters,
    collected in a record;
  \<^item> the \<^verbatim>\<open>cv2\<close> drawing calls write pixels only, and the FPS counter reads the wall
    clock and feeds only a drawn text; neither is modelled. A frame keeps its shape and
    its pixels (opaque);
  \<^item> the quotient \<^verbatim>\<open>frame.shape[1] / 9.2\<close> is taken as the exact rational quotient,
    and \<^verbatim>\<open>int(...)\<close> truncates it toward zero.
\<close>

subsection \<open>Data\<close>

text \<open>A box as \<^verbatim>\<open>track_face\<close> receives it: \<open>(x, y, w, h)\<close> = (left, top, right, bottom).\<close>

type_synonym box = "int \<times> int \<times> int \<times> int"

text \<open>\<^verbatim>\<open>frame.shape[0]\<close> is the height, \<^verbatim>\<open>frame.shape[1]\<close> the width.\<close>

record 'p frame =
  shape0 :: nat
  shape1 :: nat
  pixels :: 'p

text \<open>The opaque \<^verbatim>\<open>dlib.correlation_tracker\<close>: its constructor and the three methods used.\<close>

record ('t, 'p) dlib =
  correlation_tracker :: 't
  start_track :: "'t \<Rightarrow> 'p frame \<Rightarrow> box \<Rightarrow> 't"
  update :: "'t \<Rightarrow> 'p frame \<Rightarrow> 't"
  get_position :: "'t \<Rightarrow> box"

text \<open>
  The snapshot published by the image processor thread:
  \<^verbatim>\<open>face_locations\<close> holds \<open>(top, right, bottom, left)\<close> tuples.
\<close>

record image_processor =
  face_locations :: "(int \<times> int \<times> int \<times> int) list option"
  face_names :: "string list option"
  confidence_list :: "string list option"

text \<open>The calls the widget makes on its PTZ controller (USB methods, or the NDI speed call).\<close>

datatype ptz_call =
    Move_stop
  | Move_left_up_track
  | Move_right_up_track
  | Move_left_down_track
  | Move_right_down_track
  | Move_up_track
  | Move_down_track
  | Move_left_track
  | Move_right_track
  | Recv_ptz_pan_tilt_speed rat rat

datatype error = AttributeError

record 't camera_widget =
  ptz_controller :: "nat option"
  ptz_is_usb :: "bool option"
  last_request :: "string option"
  track_started :: bool
  temp_tracked_name :: "string option"
  track_x :: "int option"
  track_y :: "int option"
  track_w :: "int option"
  track_h :: "int option"
  is_tracking :: bool
  tracked_name :: "string option"
  tracker :: 't

subsection \<open>Construction and setters\<close>

text \<open>
  \<^verbatim>\<open>__init__\<close>: the controller is the NDI receiver when the source supports PTZ
  (\<open>Some\<close> handle), else \<^verbatim>\<open>None\<close>.
\<close>

definition init :: "('t, 'p) dlib \<Rightarrow> nat option \<Rightarrow> 't camera_widget" where
  "init D ctl =
     \<lparr> ptz_controller = ctl, ptz_is_usb = None, last_request = None,
       track_started = False, temp_tracked_name = None,
       track_x = None, track_y = None, track_w = None, track_h = None,
       is_tracking = False, tracked_name = None,
       tracker = correlation_tracker D \<rparr>"

text \<open>\<^verbatim>\<open>if self.ptz_is_usb: move_x() else: ndi.recv_ptz_pan_tilt_speed(pan, tilt)\<close>.\<close>

definition ptz_send :: "'t camera_widget \<Rightarrow> ptz_call \<Rightarrow> rat \<Rightarrow> rat \<Rightarrow> ptz_call" where
  "ptz_send s usb pan tilt =
     (if ptz_is_usb s = Some True then usb else Recv_ptz_pan_tilt_speed pan tilt)"

definition set_tracking :: "'t camera_widget \<Rightarrow> 't camera_widget \<times> ptz_call list" where
  "set_tracking s =
     (let s1 = s\<lparr>track_x := None, track_y := None, track_w := None, track_h := None,
                 is_tracking := \<not> is_tracking s\<rparr>
      in if ptz_controller s1 \<noteq> None
         then (s1\<lparr>last_request := None\<rparr>, [ptz_send s1 Move_stop 0 0])
         else (s1, []))"

definition set_tracked_name :: "'t camera_widget \<Rightarrow> string option \<Rightarrow> 't camera_widget" where
  "set_tracked_name s name = s\<lparr>track_started := False, tracked_name := name\<rparr>"

subsection \<open>The dead zone\<close>

text \<open>Python's \<^verbatim>\<open>int()\<close> on a float: truncation toward zero.\<close>

definition py_int :: "rat \<Rightarrow> int" where
  "py_int q = (if q < 0 then \<lceil>q\<rceil> else \<lfloor>q\<rfloor>)"

text \<open>The four bounds \<open>(min_x, max_x, min_y, max_y)\<close> of \<^verbatim>\<open>track_face\<close>.\<close>

definition dead_zone :: "'p frame \<Rightarrow> int \<times> int \<times> int \<times> int" where
  "dead_zone fr =
     (py_int (of_nat (shape1 fr) / 9.2), py_int (of_nat (shape1 fr) / 1.2),
      py_int (of_nat (shape0 fr) / 18), py_int (of_nat (shape0 fr) / 1.6))"

subsection \<open>Steering\<close>

text \<open>
  The first \<^verbatim>\<open>if\<close> of the PTZ block of \<^verbatim>\<open>track_face\<close>: the stop branch. It is a
  statement of its own, followed by the directional chain.
\<close>

definition steer_stop ::
  "int \<times> int \<times> int \<times> int \<Rightarrow> box \<Rightarrow> 't camera_widget \<Rightarrow> 't camera_widget \<times> ptz_call list" where
  "steer_stop dz b s =
     (case dz of (min_x, max_x, min_y, max_y) \<Rightarrow> case b of (x, y, w, h) \<Rightarrow>
        if x > min_x \<and> w < max_x \<and> y > min_y \<and> h < max_y \<and> last_request s \<noteq> Some ''stop''
        then (s\<lparr>last_request := Some ''stop''\<rparr>, [ptz_send s Move_stop 0 0])
        else (s, []))"

text \<open>
  The \<^verbatim>\<open>if\<close>/\<^verbatim>\<open>elif\<close> chain of the eight directions. Each condition carries its own
  test of \<^verbatim>\<open>last_request\<close>, as in the source.
\<close>

definition steer_move ::
  "int \<times> int \<times> int \<times> int \<Rightarrow> box \<Rightarrow> 't camera_widget \<Rightarrow> 't camera_widget \<times> ptz_call list" where
  "steer_move dz b s =
     (case dz of (min_x, max_x, min_y, max_y) \<Rightarrow> case b of (x, y, w, h) \<Rightarrow>
        if y < min_y \<and> x < min_x \<and> last_request s \<noteq> Some ''up_left''
        then (s\<lparr>last_request := Some ''up_left''\<rparr>, [ptz_send s Move_left_up_track (1/10) (1/10)])
        else if y < min_y \<and> w > max_x \<and> last_request s \<noteq> Some ''up_right''
        then (s\<lparr>last_request := Some ''up_right''\<rparr>, [ptz_send s Move_right_up_track (-1/10) (1/10)])
        else if h > max_y \<and> x < min_x \<and> last_request s \<noteq> Some ''down_left''
        then (s\<lparr>last_request := Some ''down_left''\<rparr>, [ptz_send s Move_left_down_track (1/10) (-1/10)])
        else if h > max_y \<and> w > max_x \<and> last_request s \<noteq> Some ''down_right''
        then (s\<lparr>last_request := Some ''down_right''\<rparr>, [ptz_send s Move_right_down_track (-1/10) (-1/10)])
        else if y < min_y \<and> last_request s \<noteq> Some ''up''
        then (s\<lparr>last_request := Some ''up''\<rparr>, [ptz_send s Move_up_track 0 (1/10)])
        else if h > max_y \<and> last_request s \<noteq> Some ''down''
        then (s\<lparr>last_request := Some ''down''\<rparr>, [ptz_send s Move_down_track 0 (-1/10)])
        else if x < min_x \<and> last_request s \<noteq> Some ''left''
        then (s\<lparr>last_request := Some ''left''\<rparr>, [ptz_send s Move_left_track (1/10) 0])
        else if w > max_x \<and> last_request s \<noteq> Some ''right''
        then (s\<lparr>last_request := Some ''right''\<rparr>, [ptz_send s Move_right_track (-1/10) 0])
        else (s, []))"

text \<open>The whole PTZ block: nothing without a controller, else the stop branch, then the chain.\<close>

definition steer ::
  "int \<times> int \<times> int \<times> int \<Rightarrow> box \<Rightarrow> 't camera_widget \<Rightarrow> 't camera_widget \<times> ptz_call list" where
  "steer dz b s =
     (if ptz_controller s \<noteq> None
      then (case steer_stop dz b s of (s1, c1) \<Rightarrow>
            case steer_move dz b s1 of (s2, c2) \<Rightarrow> (s2, c1 @ c2))
      else (s, []))"

subsection \<open>The per-frame update\<close>

text \<open>
  \<^verbatim>\<open>track_face\<close>, in its three blocks. First block
  (\<^verbatim>\<open>if self.track_started is False\<close>): the first seeding of the tracker.
\<close>

definition seed ::
  "('t, 'p) dlib \<Rightarrow> 't camera_widget \<Rightarrow> 'p frame \<Rightarrow> box \<Rightarrow> 't camera_widget" where
  "seed D s fr b =
     (if \<not> track_started s
      then s\<lparr>tracker := start_track D (tracker s) fr b, track_started := True\<rparr>
      else s)"

text \<open>
  Second block (\<^verbatim>\<open>if self.temp_tracked_name == self.tracked_name ... else ...\<close>): the
  tracker is started again on the given box, or advanced and read. The box read from the
  tracker is held in the local variables \<^verbatim>\<open>x, y, w, h\<close> only.
\<close>

definition locate ::
  "('t, 'p) dlib \<Rightarrow> 't camera_widget \<Rightarrow> 'p frame \<Rightarrow> box \<Rightarrow> 't camera_widget \<times> box" where
  "locate D s fr b =
     (if temp_tracked_name s = tracked_name s
      then (s\<lparr>tracker := start_track D (tracker s) fr b\<rparr>, b)
      else let t = update D (tracker s) fr
           in (s\<lparr>tracker := t\<rparr>, get_position D t))"

text \<open>
  The whole method. The label text calls \<^verbatim>\<open>self.tracked_name.upper()\<close>, which raises
  \<^verbatim>\<open>AttributeError\<close> on \<^verbatim>\<open>None\<close>, before any attribute is written. The result is
  the outcome, the attributes, the box the PTZ block was given (when it was reached) and
  the controller calls.
\<close>

definition track_face ::
  "('t, 'p) dlib \<Rightarrow> 't camera_widget \<Rightarrow> 'p frame \<Rightarrow> box
     \<Rightarrow> (error + 'p frame) \<times> 't camera_widget \<times> box option \<times> ptz_call list" where
  "track_face D s fr b =
     (if tracked_name s = None then (Inl AttributeError, s, None, [])
      else case locate D (seed D s fr b) fr b of (s2, b2) \<Rightarrow>
           case steer (dead_zone fr) b2 s2 of (s3, calls) \<Rightarrow>
             (Inr fr, s3, Some b2, calls))"

text \<open>The body of the loop of \<^verbatim>\<open>draw_on_frame\<close> over the zipped snapshot.\<close>

definition note_face ::
  "'t camera_widget \<Rightarrow> (int \<times> int \<times> int \<times> int) \<times> string \<times> string \<Rightarrow> 't camera_widget" where
  "note_face s e =
     (case e of ((top_, right_, bottom_, left_), name, confidence) \<Rightarrow>
        if Some name = tracked_name s
        then s\<lparr>temp_tracked_name := Some name, track_x := Some left_, track_y := Some top_,
               track_w := Some right_, track_h := Some bottom_\<rparr>
        else s)"

definition scan_faces :: "'t camera_widget \<Rightarrow> image_processor option \<Rightarrow> 't camera_widget" where
  "scan_faces s pt =
     (case pt of
        None \<Rightarrow> s
      | Some p \<Rightarrow>
          (case (face_locations p, face_names p, confidence_list p) of
             (Some ls, Some ns, Some cs) \<Rightarrow> foldl note_face s (zip ls (zip ns cs))
           | _ \<Rightarrow> s))"

text \<open>
  \<^verbatim>\<open>draw_on_frame\<close>, with the processor thread's snapshot as an argument. When
  \<^verbatim>\<open>track_face\<close> raises, the assignment \<^verbatim>\<open>self.temp_tracked_name = None\<close> is not
  reached.
\<close>

definition draw_on_frame ::
  "('t, 'p) dlib \<Rightarrow> 't camera_widget \<Rightarrow> image_processor option \<Rightarrow> 'p frame
     \<Rightarrow> (error + 'p frame) \<times> 't camera_widget \<times> box option \<times> ptz_call list" where
  "draw_on_frame D s pt fr =
     (let s1 = scan_faces s pt
      in if is_tracking s1 \<and> track_x s1 \<noteq> None \<and> track_y s1 \<noteq> None
            \<and> track_w s1 \<noteq> None \<and> track_h s1 \<noteq> None
         then (case track_face D s1 fr
                      (the (track_x s1), the (track_y s1), the (track_w s1), the (track_h s1)) of
                 (Inl e, s2, b2, calls) \<Rightarrow> (Inl e, s2, b2, calls)
               | (Inr fr2, s2, b2, calls) \<Rightarrow>
                   (Inr fr2, s2\<lparr>temp_tracked_name := None\<rparr>, b2, calls))
         else (Inr fr, s1\<lparr>temp_tracked_name := None\<rparr>, None, []))"

text \<open>The four components of an update's result.\<close>

definition outcome :: "'r \<times> 's \<times> 'b \<times> 'c \<Rightarrow> 'r" where
  "outcome r = fst r"

definition widget_after :: "'r \<times> 's \<times> 'b \<times> 'c \<Rightarrow> 's" where
  "widget_after r = fst (snd r)"

definition steering_box :: "'r \<times> 's \<times> 'b \<times> 'c \<Rightarrow> 'b" where
  "steering_box r = fst (snd (snd r))"

definition dispatched :: "'r \<times> 's \<times> 'b \<times> 'c \<Rightarrow> 'c" where
  "dispatched r = snd (snd (snd r))"

subsection \<open>Notions used in the statements\<close>

text \<open>The test of \<^verbatim>\<open>draw_on_frame\<close> that guards the call of \<^verbatim>\<open>track_face\<close>.\<close>

definition tracking_ready :: "'t camera_widget \<Rightarrow> bool" where
  "tracking_ready s \<longleftrightarrow>
     is_tracking s \<and> track_x s \<noteq> None \<and> track_y s \<noteq> None
       \<and> track_w s \<noteq> None \<and> track_h s \<noteq> None"

definition cached_box :: "'t camera_widget \<Rightarrow> box" where
  "cached_box s = (the (track_x s), the (track_y s), the (track_w s), the (track_h s))"

text \<open>The entries the loop of \<^verbatim>\<open>draw_on_frame\<close> visits, in order.\<close>

definition entries ::
  "image_processor option \<Rightarrow> ((int \<times> int \<times> int \<times> int) \<times> string \<times> string) list" where
  "entries pt =
     (case pt of
        None \<Rightarrow> []
      | Some p \<Rightarrow>
          (case (face_locations p, face_names p, confidence_list p) of
             (Some ls, Some ns, Some cs) \<Rightarrow> zip ls (zip ns cs)
           | _ \<Rightarrow> []))"

definition entry_name :: "(int \<times> int \<times> int \<times> int) \<times> string \<times> string \<Rightarrow> string" where
  "entry_name e = fst (snd e)"

text \<open>The box \<^verbatim>\<open>(left, top, right, bottom)\<close> that the loop caches for an entry.\<close>

definition entry_box :: "(int \<times> int \<times> int \<times> int) \<times> string \<times> string \<Rightarrow> box" where
  "entry_box e = (case fst e of (top_, right_, bottom_, left_) \<Rightarrow> (left_, top_, right_, bottom_))"

text \<open>
  The classification as the specification words it: the dead zone first, then the four
  diagonals, then the four sides, the first match winning, by position alone.
\<close>

definition spec_classify :: "int \<times> int \<times> int \<times> int \<Rightarrow> box \<Rightarrow> string option" where
  "spec_classify dz b =
     (case dz of (min_x, max_x, min_y, max_y) \<Rightarrow> case b of (x, y, w, h) \<Rightarrow>
        if x > min_x \<and> w < max_x \<and> y > min_y \<and> h < max_y then Some ''stop''
        else if y < min_y \<and> x < min_x then Some ''up_left''
        else if y < min_y \<and> w > max_x then Some ''up_right''
        else if h > max_y \<and> x < min_x then Some ''down_left''
        else if h > max_y \<and> w > max_x then Some ''down_right''
        else if y < min_y then Some ''up''
        else if h > max_y then Some ''down''
        else if x < min_x then Some ''left''
        else if w > max_x then Some ''right''
        else None)"

text \<open>A box that leaves the dead zone on at most one of its four sides.\<close>

definition single_sided :: "int \<times> int \<times> int \<times> int \<Rightarrow> box \<Rightarrow> bool" where
  "single_sided dz b =
     (case dz of (min_x, max_x, min_y, max_y) \<Rightarrow> case b of (x, y, w, h) \<Rightarrow>
        length (filter id [y < min_y, h > max_y, x < min_x, w > max_x]) \<le> 1)"

text \<open>A tracker state that \<^verbatim>\<open>start_track\<close> has produced, possibly advanced since.\<close>

inductive seeded :: "('t, 'p) dlib \<Rightarrow> 't \<Rightarrow> bool" for D :: "('t, 'p) dlib" where
  seeded_start: "seeded D (start_track D t fr b)"
| seeded_update: "seeded D t \<Longrightarrow> seeded D (update D t fr)"

definition started_is_seeded :: "('t, 'p) dlib \<Rightarrow> 't camera_widget \<Rightarrow> bool" where
  "started_is_seeded D s \<longleftrightarrow> \<not> track_started s \<or> seeded D (tracker s)"

text \<open>
  The attributes with which an update enters the PTZ block: after the scan of the
  snapshot and the first two blocks of \<^verbatim>\<open>track_face\<close>.
\<close>

definition at_steering ::
  "('t, 'p) dlib \<Rightarrow> 't camera_widget \<Rightarrow> image_processor option \<Rightarrow> 'p frame \<Rightarrow> 't camera_widget" where
  "at_steering D s pt fr =
     fst (locate D (seed D (scan_faces s pt) fr (cached_box (scan_faces s pt))) fr
            (cached_box (scan_faces s pt)))"

text \<open>
  Frames arrive one after the other: each update runs on the attributes the previous
  one left (also when it raised), and the controller calls accumulate.
\<close>

fun run_frames ::
  "('t, 'p) dlib \<Rightarrow> 't camera_widget \<Rightarrow> (image_processor option \<times> 'p frame) list
     \<Rightarrow> 't camera_widget \<times> ptz_call list" where
  "run_frames D s [] = (s, [])"
| "run_frames D s (f # fs) =
     (let r = draw_on_frame D s (fst f) (snd f);
          rest = run_frames D (widget_after r) fs
      in (fst rest, dispatched r @ snd rest))"

subsection \<open>Concrete values for the examples\<close>

text \<open>
  A tracker whose state is its box: \<^verbatim>\<open>start_track\<close> takes the given box, and each
  \<^verbatim>\<open>update\<close> moves it 300 to the right and 100 down.
\<close>

definition drift_dlib :: "(box, unit) dlib" where
  "drift_dlib =
     \<lparr> correlation_tracker = (0, 0, 0, 0),
       start_track = (\<lambda>t fr b. b),
       update = (\<lambda>t fr. case t of (x, y, w, h) \<Rightarrow> (x + 300, y + 100, w + 300, h + 100)),
       get_position = (\<lambda>t. t) \<rparr>"

definition frame_800x600 :: "unit frame" where
  "frame_800x600 = \<lparr> shape0 = 600, shape1 = 800, pixels = () \<rparr>"

text \<open>A snapshot with one face, given as \<open>(top, right, bottom, left)\<close>.\<close>

definition one_face :: "string \<Rightarrow> int \<times> int \<times> int \<times> int \<Rightarrow> image_processor option" where
  "one_face name loc =
     Some \<lparr> face_locations = Some [loc], face_names = Some [name],
            confidence_list = Some [''99%''] \<rparr>"

definition no_faces :: "image_processor option" where
  "no_faces = Some \<lparr> face_locations = Some [], face_names = Some [], confidence_list = Some [] \<rparr>"

text \<open>
  A widget with an NDI controller, following ann, tracking switched on, after one frame
  that shows ann at the left edge (left 10, top 40, right 50, bottom 60).
\<close>

definition widget_on_ann :: "box camera_widget" where
  "widget_on_ann =
     widget_after (draw_on_frame drift_dlib
        (fst (set_tracking (set_tracked_name (init drift_dlib (Some 0)) (Some ''ann''))))
        (one_face ''ann'' (40, 50, 60, 10)) frame_800x600)"

text \<open>Snapshots showing ann in four places of an 800 by 600 frame.\<close>

definition ann_low_right :: "image_processor option" where
  "ann_low_right = one_face ''ann'' (50, 750, 400, 700)"

definition ann_filling :: "image_processor option" where
  "ann_filling = one_face ''ann'' (10, 790, 590, 10)"

definition ann_centre :: "image_processor option" where
  "ann_centre = one_face ''ann'' (100, 400, 300, 200)"

definition ann_top_left :: "image_processor option" where
  "ann_top_left = one_face ''ann'' (10, 50, 30, 10)"

text \<open>The example widget one frame later, for three of these snapshots.\<close>

definition widget_down_right :: "box camera_widget" where
  "widget_down_right =
     widget_after (draw_on_frame drift_dlib widget_on_ann ann_low_right frame_800x600)"

definition widget_stopped :: "box camera_widget" where
  "widget_stopped =
     widget_after (draw_on_frame drift_dlib widget_on_ann ann_centre frame_800x600)"

definition widget_up_left :: "box camera_widget" where
  "widget_up_left =
     widget_after (draw_on_frame drift_dlib widget_on_ann ann_top_left frame_800x600)"

section \<open>Properties\<close>

subsection \<open>The dead zone in integer arithmetic\<close>

lemma py_int_quotient:
  assumes "0 < b" "0 \<le> a"
  shows "py_int (of_nat n * of_int a / of_int b) = int n * a div b"
proof -
  have eq: "(of_nat n * of_int a / of_int b :: rat) = of_int (int n * a) / of_int b"
    by simp
  have nonneg: "\<not> (of_int (int n * a) / of_int b :: rat) < 0"
    using assms by (simp add: not_less zero_le_divide_iff)
  show ?thesis
    unfolding eq py_int_def using nonneg by (simp only: if_False floor_divide_of_int_eq)
qed

lemma dead_zone_div:
  "dead_zone fr = (int (shape1 fr) * 5 div 46, int (shape1 fr) * 5 div 6,
                   int (shape0 fr) div 18, int (shape0 fr) * 5 div 8)"
proof -
  have a: "(of_nat (shape1 fr) :: rat) / 9.2 = of_nat (shape1 fr) * of_int 5 / of_int 46" by simp
  have b: "(of_nat (shape1 fr) :: rat) / 1.2 = of_nat (shape1 fr) * of_int 5 / of_int 6" by simp
  have c: "(of_nat (shape0 fr) :: rat) / 18 = of_nat (shape0 fr) * of_int 1 / of_int 18" by simp
  have d: "(of_nat (shape0 fr) :: rat) / 1.6 = of_nat (shape0 fr) * of_int 5 / of_int 8" by simp
  show ?thesis
    unfolding dead_zone_def a b c d by (simp only: py_int_quotient) simp
qed

subsection \<open>The PTZ block\<close>

lemma steer_stop_length: "length (snd (steer_stop dz b s)) \<le> 1"
  by (simp add: steer_stop_def split: prod.splits)

text \<open>The stop branch and the chain exclude each other by their position tests.\<close>

lemma steer_length: "length (snd (steer dz b s)) \<le> 1"
proof (cases dz; cases b)
  fix min_x max_x min_y max_y x y w h
  assume dz: "dz = (min_x, max_x, min_y, max_y)" and b: "b = (x, y, w, h)"
  show ?thesis
  proof (cases "x > min_x \<and> w < max_x \<and> y > min_y \<and> h < max_y")
    case True
    then have "steer_move dz b s' = (s', [])" for s' :: "'a camera_widget"
      by (simp add: steer_move_def dz b)
    then show ?thesis
      using steer_stop_length [of dz b s] by (simp add: steer_def split: prod.splits)
  next
    case False
    then have "steer_stop dz b s = (s, [])"
      by (auto simp add: steer_stop_def dz b)
    moreover have "length (snd (steer_move dz b s)) \<le> 1"
      by (simp add: steer_move_def dz b)
    ultimately show ?thesis
      by (simp add: steer_def split: prod.splits)
  qed
qed

text \<open>
  Every run of the stop branch or of the chain either changes nothing and sends nothing,
  or sends one call and records a request that differs from the one recorded before.
\<close>

lemma steer_stop_cases:
  assumes "P (s, [])"
    and "\<And>c call. last_request s \<noteq> Some c \<Longrightarrow> P (s\<lparr>last_request := Some c\<rparr>, [call])"
  shows "P (steer_stop dz b s)"
  using assms by (cases dz; cases b) (simp add: steer_stop_def)

lemma steer_move_cases:
  assumes "P (s, [])"
    and "\<And>c call. last_request s \<noteq> Some c \<Longrightarrow> P (s\<lparr>last_request := Some c\<rparr>, [call])"
  shows "P (steer_move dz b s)"
  using assms by (cases dz; cases b) (simp add: steer_move_def)

lemma steer_stop_shape:
  "steer_stop dz b s = (s, [])
   \<or> (\<exists>c call. last_request s \<noteq> Some c \<and> steer_stop dz b s = (s\<lparr>last_request := Some c\<rparr>, [call]))"
  by (rule steer_stop_cases) auto

lemma steer_move_shape:
  "steer_move dz b s = (s, [])
   \<or> (\<exists>c call. last_request s \<noteq> Some c \<and> steer_move dz b s = (s\<lparr>last_request := Some c\<rparr>, [call]))"
  by (rule steer_move_cases) auto

lemma steer_shape:
  "steer dz b s = (s, [])
   \<or> (\<exists>c call. last_request s \<noteq> Some c \<and> steer dz b s = (s\<lparr>last_request := Some c\<rparr>, [call]))"
proof (cases dz; cases b)
  fix min_x max_x min_y max_y x y w h
  assume dz: "dz = (min_x, max_x, min_y, max_y)" and b: "b = (x, y, w, h)"
  show ?thesis
  proof (cases "ptz_controller s = None")
    case True
    then show ?thesis by (simp add: steer_def)
  next
    case ctl: False
    show ?thesis
    proof (cases "x > min_x \<and> w < max_x \<and> y > min_y \<and> h < max_y")
      case True
      then have "steer_move dz b s' = (s', [])" for s' :: "'a camera_widget"
        by (simp add: steer_move_def dz b)
      then have "steer dz b s = steer_stop dz b s"
        using ctl by (simp add: steer_def split: prod.splits)
      then show ?thesis
        using steer_stop_shape [of dz b s] by simp
    next
      case False
      then have "steer_stop dz b s = (s, [])"
        by (auto simp add: steer_stop_def dz b)
      then have "steer dz b s = steer_move dz b s"
        using ctl by (simp add: steer_def split: prod.splits)
      then show ?thesis
        using steer_move_shape [of dz b s] by simp
    qed
  qed
qed

lemma steer_quiet: "snd (steer dz b s) = [] \<Longrightarrow> fst (steer dz b s) = s"
  using steer_shape [of dz b s] by auto

lemma steer_fired:
  "snd (steer dz b s) \<noteq> [] \<Longrightarrow>
     last_request (fst (steer dz b s)) \<noteq> last_request s
     \<and> last_request (fst (steer dz b s)) \<noteq> None"
  using steer_shape [of dz b s] by auto

lemma steer_keeps:
  "ptz_controller (fst (steer dz b s)) = ptz_controller s"
  "ptz_is_usb (fst (steer dz b s)) = ptz_is_usb s"
  "tracked_name (fst (steer dz b s)) = tracked_name s"
  "is_tracking (fst (steer dz b s)) = is_tracking s"
  "track_x (fst (steer dz b s)) = track_x s"
  "track_y (fst (steer dz b s)) = track_y s"
  "track_w (fst (steer dz b s)) = track_w s"
  "track_h (fst (steer dz b s)) = track_h s"
  "track_started (fst (steer dz b s)) = track_started s"
  "tracker (fst (steer dz b s)) = tracker s"
  using steer_shape [of dz b s] by auto

text \<open>A box out on at most one side: the request recorded is the classification.\<close>

lemma steer_single:
  assumes "single_sided dz b" "spec_classify dz b = Some c" "ptz_controller s \<noteq> None"
  shows "last_request (fst (steer dz b s)) = Some c
         \<and> length (snd (steer dz b s)) = (if last_request s = Some c then 0 else 1)"
proof (cases dz; cases b)
  fix min_x max_x min_y max_y x y w h
  assume dz: "dz = (min_x, max_x, min_y, max_y)" and b: "b = (x, y, w, h)"
  have pairwise: "\<not> (y < min_y \<and> h > max_y)" "\<not> (y < min_y \<and> x < min_x)"
    "\<not> (y < min_y \<and> w > max_x)" "\<not> (h > max_y \<and> x < min_x)"
    "\<not> (h > max_y \<and> w > max_x)" "\<not> (x < min_x \<and> w > max_x)"
    using assms(1) by (auto simp add: single_sided_def dz b split: if_splits)
  consider
      (inside) "x > min_x \<and> w < max_x \<and> y > min_y \<and> h < max_y"
    | (up) "y < min_y" "\<not> h > max_y" "\<not> x < min_x" "\<not> w > max_x"
    | (down) "\<not> y < min_y" "h > max_y" "\<not> x < min_x" "\<not> w > max_x"
    | (left) "\<not> y < min_y" "\<not> h > max_y" "x < min_x" "\<not> w > max_x"
    | (right) "\<not> y < min_y" "\<not> h > max_y" "\<not> x < min_x" "w > max_x"
    | (edge) "\<not> y < min_y" "\<not> h > max_y" "\<not> x < min_x" "\<not> w > max_x"
        "\<not> (x > min_x \<and> w < max_x \<and> y > min_y \<and> h < max_y)"
    using pairwise by blast
  then show ?thesis
  proof cases
    case inside
    then have "c = ''stop''"
      using assms(2) by (simp add: spec_classify_def dz b)
    with inside assms(3) show ?thesis
      by (simp add: steer_def steer_stop_def steer_move_def dz b)
  next
    case up
    then have "c = ''up''"
      using assms(2) by (simp add: spec_classify_def dz b)
    with up assms(3) show ?thesis
      by (simp add: steer_def steer_stop_def steer_move_def dz b)
  next
    case down
    then have "c = ''down''"
      using assms(2) by (simp add: spec_classify_def dz b)
    with down assms(3) show ?thesis
      by (simp add: steer_def steer_stop_def steer_move_def dz b)
  next
    case left
    then have "c = ''left''"
      using assms(2) by (simp add: spec_classify_def dz b)
    with left assms(3) show ?thesis
      by (simp add: steer_def steer_stop_def steer_move_def dz b)
  next
    case right
    then have "c = ''right''"
      using assms(2) by (simp add: spec_classify_def dz b)
    with right assms(3) show ?thesis
      by (simp add: steer_def steer_stop_def steer_move_def dz b)
  next
    case edge
    then have False
      using assms(2) by (auto simp add: spec_classify_def dz b)
    then show ?thesis ..
  qed
qed

subsection \<open>What the scan of the snapshot leaves alone\<close>

lemma note_face_keeps:
  "ptz_controller (note_face s e) = ptz_controller s"
  "ptz_is_usb (note_face s e) = ptz_is_usb s"
  "last_request (note_face s e) = last_request s"
  "track_started (note_face s e) = track_started s"
  "is_tracking (note_face s e) = is_tracking s"
  "tracked_name (note_face s e) = tracked_name s"
  "tracker (note_face s e) = tracker s"
  by (simp_all add: note_face_def split: prod.splits)

lemma foldl_note_face_keeps:
  "ptz_controller (foldl note_face s es) = ptz_controller s"
  "ptz_is_usb (foldl note_face s es) = ptz_is_usb s"
  "last_request (foldl note_face s es) = last_request s"
  "track_started (foldl note_face s es) = track_started s"
  "is_tracking (foldl note_face s es) = is_tracking s"
  "tracked_name (foldl note_face s es) = tracked_name s"
  "tracker (foldl note_face s es) = tracker s"
  by (induction es arbitrary: s; simp add: note_face_keeps)+

lemma scan_faces_keeps:
  "ptz_controller (scan_faces s pt) = ptz_controller s"
  "ptz_is_usb (scan_faces s pt) = ptz_is_usb s"
  "last_request (scan_faces s pt) = last_request s"
  "track_started (scan_faces s pt) = track_started s"
  "is_tracking (scan_faces s pt) = is_tracking s"
  "tracked_name (scan_faces s pt) = tracked_name s"
  "tracker (scan_faces s pt) = tracker s"
  by (simp_all add: scan_faces_def foldl_note_face_keeps split: option.splits)

subsection \<open>The update unfolded\<close>

lemma track_face_unfold:
  "track_face D s fr b =
     (if tracked_name s = None then (Inl AttributeError, s, None, [])
      else (Inr fr,
            fst (steer (dead_zone fr) (snd (locate D (seed D s fr b) fr b))
                   (fst (locate D (seed D s fr b) fr b))),
            Some (snd (locate D (seed D s fr b) fr b)),
            snd (steer (dead_zone fr) (snd (locate D (seed D s fr b) fr b))
                   (fst (locate D (seed D s fr b) fr b)))))"
  by (simp add: track_face_def case_prod_beta)

lemma draw_on_frame_idle:
  "\<not> tracking_ready (scan_faces s pt) \<Longrightarrow>
     draw_on_frame D s pt fr = (Inr fr, (scan_faces s pt)\<lparr>temp_tracked_name := None\<rparr>, None, [])"
  by (auto simp add: draw_on_frame_def tracking_ready_def Let_def)

lemma draw_on_frame_raise:
  "tracking_ready (scan_faces s pt) \<Longrightarrow> tracked_name s = None \<Longrightarrow>
     draw_on_frame D s pt fr = (Inl AttributeError, scan_faces s pt, None, [])"
  by (simp add: draw_on_frame_def tracking_ready_def Let_def track_face_unfold scan_faces_keeps)

lemma draw_on_frame_track:
  assumes "tracking_ready (scan_faces s pt)" "tracked_name s \<noteq> None"
  shows "draw_on_frame D s pt fr =
     (let s1 = scan_faces s pt;
          l = locate D (seed D s1 fr (cached_box s1)) fr (cached_box s1);
          r = steer (dead_zone fr) (snd l) (fst l)
      in (Inr fr, (fst r)\<lparr>temp_tracked_name := None\<rparr>, Some (snd l), snd r))"
  using assms
  by (simp add: draw_on_frame_def tracking_ready_def Let_def track_face_unfold scan_faces_keeps
        cached_box_def)

lemma draw_on_frame_length: "length (dispatched (draw_on_frame D s pt fr)) \<le> 1"
proof (cases "tracking_ready (scan_faces s pt)")
  case False
  then show ?thesis
    by (simp add: draw_on_frame_idle dispatched_def)
next
  case ready: True
  show ?thesis
  proof (cases "tracked_name s = None")
    case True
    with ready show ?thesis
      by (simp add: draw_on_frame_raise dispatched_def)
  next
    case False
    with ready show ?thesis
      using steer_length by (simp add: draw_on_frame_track dispatched_def Let_def)
  qed
qed

subsection \<open>The example widget evaluated\<close>

lemmas run_defs =
  draw_on_frame_def track_face_def seed_def locate_def steer_def steer_stop_def steer_move_def
  scan_faces_def note_face_def set_tracking_def set_tracked_name_def init_def ptz_send_def
  drift_dlib_def frame_800x600_def one_face_def no_faces_def
  widget_after_def dispatched_def steering_box_def outcome_def dead_zone_div Let_def

lemma widget_on_ann_value:
  "widget_on_ann =
     \<lparr> ptz_controller = Some 0, ptz_is_usb = None, last_request = Some ''left'',
       track_started = True, temp_tracked_name = None,
       track_x = Some 10, track_y = Some 40, track_w = Some 50, track_h = Some 60,
       is_tracking = True, tracked_name = Some ''ann'', tracker = (10, 40, 50, 60) \<rparr>"
  by (simp add: widget_on_ann_def run_defs)

lemma py_int_floor: "0 \<le> q \<Longrightarrow> py_int q = \<lfloor>q\<rfloor>"
  by (simp add: py_int_def)

lemma draw_on_frame_outcome:
  "outcome (draw_on_frame D s pt fr) =
     (if tracking_ready (scan_faces s pt) \<and> tracked_name s = None
      then Inl AttributeError else Inr fr)"
proof (cases "tracking_ready (scan_faces s pt)")
  case False
  then show ?thesis by (simp add: draw_on_frame_idle outcome_def)
next
  case True
  then show ?thesis
    by (cases "tracked_name s = None")
       (simp_all add: draw_on_frame_raise draw_on_frame_track outcome_def Let_def)
qed

subsection \<open>From the update to the PTZ block\<close>

lemma seed_keeps:
  "ptz_controller (seed D s fr b) = ptz_controller s"
  "ptz_is_usb (seed D s fr b) = ptz_is_usb s"
  "last_request (seed D s fr b) = last_request s"
  "temp_tracked_name (seed D s fr b) = temp_tracked_name s"
  "tracked_name (seed D s fr b) = tracked_name s"
  "is_tracking (seed D s fr b) = is_tracking s"
  "track_x (seed D s fr b) = track_x s"
  "track_y (seed D s fr b) = track_y s"
  "track_w (seed D s fr b) = track_w s"
  "track_h (seed D s fr b) = track_h s"
  "track_started (seed D s fr b)"
  by (simp_all add: seed_def)

lemma locate_keeps:
  "ptz_controller (fst (locate D s fr b)) = ptz_controller s"
  "ptz_is_usb (fst (locate D s fr b)) = ptz_is_usb s"
  "last_request (fst (locate D s fr b)) = last_request s"
  "tracked_name (fst (locate D s fr b)) = tracked_name s"
  "is_tracking (fst (locate D s fr b)) = is_tracking s"
  "track_x (fst (locate D s fr b)) = track_x s"
  "track_y (fst (locate D s fr b)) = track_y s"
  "track_w (fst (locate D s fr b)) = track_w s"
  "track_h (fst (locate D s fr b)) = track_h s"
  "track_started (fst (locate D s fr b)) = track_started s"
  by (simp_all add: locate_def Let_def)

lemma steering_box_Some:
  assumes "steering_box (draw_on_frame D s pt fr) = Some b"
  shows "tracking_ready (scan_faces s pt) \<and> tracked_name s \<noteq> None"
proof (rule ccontr)
  assume "\<not> ?thesis"
  then have "steering_box (draw_on_frame D s pt fr) = None"
    by (cases "tracking_ready (scan_faces s pt)")
       (auto simp add: draw_on_frame_idle draw_on_frame_raise steering_box_def)
  with assms show False by simp
qed

lemma at_steering_keeps:
  "ptz_controller (at_steering D s pt fr) = ptz_controller s"
  "ptz_is_usb (at_steering D s pt fr) = ptz_is_usb s"
  "last_request (at_steering D s pt fr) = last_request s"
  by (simp_all add: at_steering_def locate_keeps seed_keeps scan_faces_keeps)

lemma draw_on_frame_steered:
  assumes "steering_box (draw_on_frame D s pt fr) = Some b"
  shows "dispatched (draw_on_frame D s pt fr) = snd (steer (dead_zone fr) b (at_steering D s pt fr))"
    and "last_request (widget_after (draw_on_frame D s pt fr))
           = last_request (fst (steer (dead_zone fr) b (at_steering D s pt fr)))"
proof -
  have r: "tracking_ready (scan_faces s pt)" "tracked_name s \<noteq> None"
    using steering_box_Some [OF assms] by simp_all
  have b: "b = snd (locate D (seed D (scan_faces s pt) fr (cached_box (scan_faces s pt))) fr
         (cached_box (scan_faces s pt)))"
    using assms by (simp add: draw_on_frame_track [OF r] steering_box_def Let_def)
  show "dispatched (draw_on_frame D s pt fr) = snd (steer (dead_zone fr) b (at_steering D s pt fr))"
    by (simp add: draw_on_frame_track [OF r] dispatched_def Let_def b at_steering_def)
  show "last_request (widget_after (draw_on_frame D s pt fr))
           = last_request (fst (steer (dead_zone fr) b (at_steering D s pt fr)))"
    by (simp add: draw_on_frame_track [OF r] widget_after_def Let_def b at_steering_def)
qed

lemma draw_on_frame_unsteered:
  assumes "steering_box (draw_on_frame D s pt fr) = None"
  shows "dispatched (draw_on_frame D s pt fr) = []"
    and "last_request (widget_after (draw_on_frame D s pt fr)) = last_request s"
proof -
  have "\<not> (tracking_ready (scan_faces s pt) \<and> tracked_name s \<noteq> None)"
  proof
    assume "tracking_ready (scan_faces s pt) \<and> tracked_name s \<noteq> None"
    then have "steering_box (draw_on_frame D s pt fr) \<noteq> None"
      by (simp add: draw_on_frame_track steering_box_def Let_def)
    with assms show False by simp
  qed
  then have "dispatched (draw_on_frame D s pt fr) = []
      \<and> last_request (widget_after (draw_on_frame D s pt fr)) = last_request s"
    by (cases "tracking_ready (scan_faces s pt)")
       (auto simp add: draw_on_frame_idle draw_on_frame_raise dispatched_def widget_after_def
          scan_faces_keeps)
  then show "dispatched (draw_on_frame D s pt fr) = []"
    and "last_request (widget_after (draw_on_frame D s pt fr)) = last_request s"
    by simp_all
qed

lemma steer_down_right:
  assumes "h > max_y" "w > max_x" "\<not> y < min_y" "\<not> x < min_x"
    "ptz_controller s \<noteq> None" "last_request s \<noteq> Some ''down_right''"
  shows "steer (min_x, max_x, min_y, max_y) (x, y, w, h) s =
           (s\<lparr>last_request := Some ''down_right''\<rparr>,
            [ptz_send s Move_right_down_track (-1/10) (-1/10)])"
  using assms by (simp add: steer_def steer_stop_def steer_move_def)

lemma draw_on_frame_keeps:
  "ptz_controller (widget_after (draw_on_frame D s pt fr)) = ptz_controller s"
  "ptz_is_usb (widget_after (draw_on_frame D s pt fr)) = ptz_is_usb s"
  "is_tracking (widget_after (draw_on_frame D s pt fr)) = is_tracking s"
  "tracked_name (widget_after (draw_on_frame D s pt fr)) = tracked_name s"
proof -
  consider (idle) "\<not> tracking_ready (scan_faces s pt)"
    | (raise) "tracking_ready (scan_faces s pt)" "tracked_name s = None"
    | (track) "tracking_ready (scan_faces s pt)" "tracked_name s \<noteq> None"
    by blast
  then have "ptz_controller (widget_after (draw_on_frame D s pt fr)) = ptz_controller s
    \<and> ptz_is_usb (widget_after (draw_on_frame D s pt fr)) = ptz_is_usb s
    \<and> is_tracking (widget_after (draw_on_frame D s pt fr)) = is_tracking s
    \<and> tracked_name (widget_after (draw_on_frame D s pt fr)) = tracked_name s"
  proof cases
    case idle
    then show ?thesis
      by (simp add: draw_on_frame_idle widget_after_def scan_faces_keeps)
  next
    case raise
    then show ?thesis
      by (simp add: draw_on_frame_raise widget_after_def scan_faces_keeps)
  next
    case track
    then show ?thesis
      by (simp add: draw_on_frame_track widget_after_def Let_def steer_keeps locate_keeps
            seed_keeps scan_faces_keeps)
  qed
  then show "ptz_controller (widget_after (draw_on_frame D s pt fr)) = ptz_controller s"
    "ptz_is_usb (widget_after (draw_on_frame D s pt fr)) = ptz_is_usb s"
    "is_tracking (widget_after (draw_on_frame D s pt fr)) = is_tracking s"
    "tracked_name (widget_after (draw_on_frame D s pt fr)) = tracked_name s"
    by simp_all
qed

lemma ptz_send_at_steering: "ptz_send (at_steering D s pt fr) = ptz_send s"
  by (simp add: ptz_send_def at_steering_keeps fun_eq_iff)

lemma draw_on_frame_debounce:
  "(dispatched (draw_on_frame D s pt fr) = [] \<longrightarrow>
      last_request (widget_after (draw_on_frame D s pt fr)) = last_request s)
   \<and> (dispatched (draw_on_frame D s pt fr) \<noteq> [] \<longrightarrow>
      last_request (widget_after (draw_on_frame D s pt fr)) \<noteq> last_request s
      \<and> last_request (widget_after (draw_on_frame D s pt fr)) \<noteq> None)"
proof (cases "steering_box (draw_on_frame D s pt fr)")
  case None
  then show ?thesis
    by (simp add: draw_on_frame_unsteered)
next
  case (Some b)
  show ?thesis
    using steer_quiet [of "dead_zone fr" b "at_steering D s pt fr"]
      steer_fired [of "dead_zone fr" b "at_steering D s pt fr"]
    by (simp add: draw_on_frame_steered [OF Some] at_steering_keeps)
qed

lemma draw_on_frame_single:
  assumes "ptz_controller s \<noteq> None"
    and "steering_box (draw_on_frame D s pt fr) = Some b"
    and "spec_classify (dead_zone fr) b = Some c" "single_sided (dead_zone fr) b"
  shows "last_request (widget_after (draw_on_frame D s pt fr)) = Some c"
    and "length (dispatched (draw_on_frame D s pt fr)) = (if last_request s = Some c then 0 else 1)"
  using steer_single [OF assms(4) assms(3), of "at_steering D s pt fr"] assms(1)
  by (simp_all add: draw_on_frame_steered [OF assms(2)] at_steering_keeps)

section \<open>The claims\<close>

text \<open>
  C8. A per-frame update makes at most one call on the PTZ controller, whatever the
  attributes, the snapshot and the frame are: the stop branch and the directional chain
  never both fire.
\<close>

theorem at_most_one_dispatch: "length (dispatched (draw_on_frame D s pt fr)) \<le> 1"
  by (rule draw_on_frame_length)

text \<open>
  C10. With a PTZ controller configured, every call of \<^verbatim>\<open>set_tracking\<close> makes the stop
  call (the USB stop, or the NDI speed call with both speeds zero) and leaves
  \<^verbatim>\<open>last_request\<close> at \<^verbatim>\<open>None\<close>, whichever way the checkbox is toggled; without a
  controller no call is made and \<^verbatim>\<open>last_request\<close> keeps its value.
\<close>

theorem set_tracking_stop:
  "(ptz_controller s \<noteq> None \<longrightarrow>
       snd (set_tracking s) = [ptz_send s Move_stop 0 0]
       \<and> ptz_send s Move_stop 0 0 \<in> {Move_stop, Recv_ptz_pan_tilt_speed 0 0}
       \<and> last_request (fst (set_tracking s)) = None)
   \<and> (ptz_controller s = None \<longrightarrow>
       snd (set_tracking s) = [] \<and> last_request (fst (set_tracking s)) = last_request s)"
  by (simp add: set_tracking_def ptz_send_def Let_def)

theorem set_tracking_stop_witness:
  "snd (set_tracking widget_on_ann) = [Recv_ptz_pan_tilt_speed 0 0]
   \<and> last_request widget_on_ann = Some ''left''
   \<and> last_request (fst (set_tracking widget_on_ann)) = None
   \<and> snd (set_tracking (widget_on_ann\<lparr>ptz_controller := None\<rparr>)) = []
   \<and> last_request (fst (set_tracking (widget_on_ann\<lparr>ptz_controller := None\<rparr>))) = Some ''left''"
  using set_tracking_stop [of widget_on_ann]
        set_tracking_stop [of "widget_on_ann\<lparr>ptz_controller := None\<rparr>"]
  by (simp add: widget_on_ann_value ptz_send_def)

text \<open>
  C3. The claim says the bounds equal the exact quotients. The code truncates each
  quotient with \<^verbatim>\<open>int()\<close>: for an 800 by 600 frame the bounds are 86, 666, 33 and 375,
  and three of the four quotients are not integers.
\<close>

theorem dead_zone_exact_counterexample:
  "dead_zone frame_800x600 = (86, 666, 33, 375)
   \<and> \<not> (of_int (fst (dead_zone frame_800x600)) = (800 / 9.2 :: rat))
   \<and> \<not> (of_int (fst (snd (dead_zone frame_800x600))) = (800 / 1.2 :: rat))
   \<and> \<not> (of_int (fst (snd (snd (dead_zone frame_800x600)))) = (600 / 18 :: rat))"
  by (simp add: frame_800x600_def dead_zone_div)

text \<open>
  C3, amended. For a frame at least 160 wide and 120 high, the bounds are the integer
  parts of the four quotients (width over 9.2 and over 1.2, height over 18 and over
  1.6), and \<open>min_x < max_x\<close> and \<open>min_y < max_y\<close>.
\<close>

theorem dead_zone_bounds:
  assumes "160 \<le> shape1 fr" "120 \<le> shape0 fr"
  shows "dead_zone fr =
           (\<lfloor>of_nat (shape1 fr) / (9.2 :: rat)\<rfloor>, \<lfloor>of_nat (shape1 fr) / (1.2 :: rat)\<rfloor>,
            \<lfloor>of_nat (shape0 fr) / (18 :: rat)\<rfloor>, \<lfloor>of_nat (shape0 fr) / (1.6 :: rat)\<rfloor>)
         \<and> fst (dead_zone fr) < fst (snd (dead_zone fr))
         \<and> fst (snd (snd (dead_zone fr))) < snd (snd (snd (dead_zone fr)))"
proof -
  have floors: "dead_zone fr =
           (\<lfloor>of_nat (shape1 fr) / (9.2 :: rat)\<rfloor>, \<lfloor>of_nat (shape1 fr) / (1.2 :: rat)\<rfloor>,
            \<lfloor>of_nat (shape0 fr) / (18 :: rat)\<rfloor>, \<lfloor>of_nat (shape0 fr) / (1.6 :: rat)\<rfloor>)"
    unfolding dead_zone_def by (simp add: py_int_floor)
  have x: "int (shape1 fr) * 5 div 46 < int (shape1 fr) * 5 div 6"
    using assms(1) by linarith
  have y: "int (shape0 fr) div 18 < int (shape0 fr) * 5 div 8"
    using assms(2) by linarith
  show ?thesis
    using floors x y by (simp add: dead_zone_div)
qed

theorem dead_zone_bounds_witness:
  "dead_zone frame_800x600 = (86, 666, 33, 375) \<and> (86 :: int) < 666 \<and> (33 :: int) < 375"
  using dead_zone_bounds [of frame_800x600]
  by (simp add: frame_800x600_def dead_zone_div)

text \<open>
  C9. The claim says the update always returns a frame. With tracking on, a box cached
  and the tracked name set back to \<^verbatim>\<open>None\<close>, \<^verbatim>\<open>track_face\<close> calls
  \<^verbatim>\<open>self.tracked_name.upper()\<close> and the update raises \<^verbatim>\<open>AttributeError\<close>. The state
  below is reached from a new widget by \<^verbatim>\<open>set_tracked_name("ann")\<close>,
  \<^verbatim>\<open>set_tracking()\<close>, one frame showing ann, and \<^verbatim>\<open>set_tracked_name(None)\<close>.
\<close>

theorem draw_on_frame_raises:
  "is_tracking (set_tracked_name widget_on_ann None)
   \<and> tracked_name (set_tracked_name widget_on_ann None) = None
   \<and> cached_box (set_tracked_name widget_on_ann None) = (10, 40, 50, 60)
   \<and> outcome (draw_on_frame drift_dlib (set_tracked_name widget_on_ann None)
                 no_faces frame_800x600) = Inl AttributeError"
  by (simp add: draw_on_frame_outcome widget_on_ann_value set_tracked_name_def cached_box_def
        tracking_ready_def scan_faces_def no_faces_def)



end
